theory Spec2Isabelle
  imports Complex_Main
begin

section \<open>Rainwater harvest and PVC durability simulator (naomi.py)\<close>

text \<open>
  The numeric core of \<^verbatim>\<open>naomi.py\<close> is a straight-line script over a pandas
  data frame and numpy arrays. The script's ambient inputs (the widgets
  \<^verbatim>\<open>roof_area\<close>, \<^verbatim>\<open>efficiency\<close>, \<^verbatim>\<open>deg_coeff\<close>, \<^verbatim>\<open>service_years\<close> and the edited
  table \<^verbatim>\<open>rain_df\<close>) become explicit arguments.

  Python floats are modelled as the real numbers: rounding, overflow to infinity
  and NaN are outside this model, and every equation below is an equation of
  real arithmetic.
\<close>

subsection \<open>The rainfall table\<close>

text \<open>One row of \<^verbatim>\<open>rain_df\<close>: the three columns of \<^verbatim>\<open>DEFAULT_RAIN\<close>.\<close>

record rain_row =
  Month :: string
  Rainfall_mm :: real
  Rainy_Days :: real

type_synonym rain_table = "rain_row list"

definition DEFAULT_RAIN :: rain_table where
  "DEFAULT_RAIN =
    [\<lparr>Month = ''Jan'', Rainfall_mm = 8, Rainy_Days = 18 / 10\<rparr>,
     \<lparr>Month = ''Feb'', Rainfall_mm = 23, Rainy_Days = 3\<rparr>,
     \<lparr>Month = ''Mar'', Rainfall_mm = 46, Rainy_Days = 75 / 10\<rparr>,
     \<lparr>Month = ''Apr'', Rainfall_mm = 89, Rainy_Days = 13\<rparr>,
     \<lparr>Month = ''May'', Rainfall_mm = 137, Rainy_Days = 178 / 10\<rparr>,
     \<lparr>Month = ''Jun'', Rainfall_mm = 193, Rainy_Days = 202 / 10\<rparr>,
     \<lparr>Month = ''Jul'', Rainfall_mm = 155, Rainy_Days = 165 / 10\<rparr>,
     \<lparr>Month = ''Aug'', Rainfall_mm = 127, Rainy_Days = 154 / 10\<rparr>,
     \<lparr>Month = ''Sep'', Rainfall_mm = 183, Rainy_Days = 206 / 10\<rparr>,
     \<lparr>Month = ''Oct'', Rainfall_mm = 140, Rainy_Days = 174 / 10\<rparr>,
     \<lparr>Month = ''Nov'', Rainfall_mm = 33, Rainy_Days = 51 / 10\<rparr>,
     \<lparr>Month = ''Dec'', Rainfall_mm = 10, Rainy_Days = 2\<rparr>]"

subsection \<open>Rainwater collection (lines 117--121)\<close>

text \<open>\<^verbatim>\<open>rain_df["Rainfall_m"] = rain_df["Rainfall_mm"] / 1000.0\<close>, element by element.\<close>

definition Rainfall_m :: "rain_table \<Rightarrow> real list" where
  "Rainfall_m rain_df = map (\<lambda>r. Rainfall_mm r / 1000) rain_df"

text \<open>
  \<^verbatim>\<open>rain_df["Collected_L"] = roof_area * rain_df["Rainfall_m"] * efficiency * 1000\<close>:
  Python multiplies from the left, as HOL's \<open>*\<close> does.
\<close>

definition Collected_L :: "rain_table \<Rightarrow> real \<Rightarrow> real \<Rightarrow> real list" where
  "Collected_L rain_df roof_area efficiency =
     map (\<lambda>m. roof_area * m * efficiency * 1000) (Rainfall_m rain_df)"

text \<open>\<^verbatim>\<open>annual_volume_l = rain_df["Collected_L"].sum()\<close>\<close>

definition annual_volume_l :: "rain_table \<Rightarrow> real \<Rightarrow> real \<Rightarrow> real" where
  "annual_volume_l rain_df roof_area efficiency =
     sum_list (Collected_L rain_df roof_area efficiency)"

text \<open>\<^verbatim>\<open>annual_volume_m3 = annual_volume_l / 1000\<close>\<close>

definition annual_volume_m3 :: "rain_table \<Rightarrow> real \<Rightarrow> real \<Rightarrow> real" where
  "annual_volume_m3 rain_df roof_area efficiency =
     annual_volume_l rain_df roof_area efficiency / 1000"

subsection \<open>PVC degradation (lines 145--148)\<close>

text \<open>
  numpy raises \<^verbatim>\<open>ValueError\<close> ("cannot reshape array of size n into shape (r, 12)")
  when the element count does not fit the requested shape. It is the only way
  the numeric core can fail.
\<close>

datatype error = ValueError

text \<open>\<^verbatim>\<open>np.tile(a, reps)\<close> on a one-dimensional array: \<open>reps\<close> copies end to end.\<close>

definition tile :: "'a list \<Rightarrow> nat \<Rightarrow> 'a list" where
  "tile a reps = concat (replicate reps a)"

text \<open>\<^verbatim>\<open>np.cumsum\<close>: the running sum, one output per input, accumulated left to right.\<close>

fun cumsum_from :: "real \<Rightarrow> real list \<Rightarrow> real list" where
  "cumsum_from acc [] = []"
| "cumsum_from acc (x # xs) = (acc + x) # cumsum_from (acc + x) xs"

definition cumsum :: "real list \<Rightarrow> real list" where
  "cumsum a = cumsum_from 0 a"

text \<open>
  \<^verbatim>\<open>a.reshape(r, c)\<close> on a one-dimensional array in row-major order: \<open>r\<close> rows of
  \<open>c\<close> consecutive elements, or \<^verbatim>\<open>ValueError\<close> when \<open>len(a) != r * c\<close>.
\<close>

primrec rows_of :: "nat \<Rightarrow> nat \<Rightarrow> 'a list \<Rightarrow> 'a list list" where
  "rows_of 0 c a = []"
| "rows_of (Suc r) c a = take c a # rows_of r c (drop c a)"

definition reshape :: "'a list \<Rightarrow> nat \<Rightarrow> nat \<Rightarrow> error + 'a list list" where
  "reshape a r c = (if length a = r * c then Inr (rows_of r c a) else Inl ValueError)"

text \<open>
  \<^verbatim>\<open>m[:, -1]\<close>: the last entry of every row. The script only takes it of a
  12-column matrix, where the index \<open>-1\<close> is in range.
\<close>

definition last_column :: "'a list list \<Rightarrow> 'a list" where
  "last_column m = map last m"

text \<open>
  \<^verbatim>\<open>monthly_rain_m = rain_df["Rainfall_m"].values\<close>
  \<^verbatim>\<open>cumulative_rain_m_per_year = np.cumsum(np.tile(monthly_rain_m, service_years)).reshape(service_years, 12)[:, -1]\<close>
  \<open>service_years\<close> comes from a slider over 1..40, a natural number.
\<close>

definition cumulative_rain_m_per_year :: "rain_table \<Rightarrow> nat \<Rightarrow> error + real list" where
  "cumulative_rain_m_per_year rain_df service_years =
     (case reshape (cumsum (tile (Rainfall_m rain_df) service_years)) service_years 12 of
        Inl e \<Rightarrow> Inl e
      | Inr m \<Rightarrow> Inr (last_column m))"

text \<open>\<^verbatim>\<open>integrity = 100 * np.exp(-deg_coeff * cumulative_rain_m_per_year)\<close>\<close>

definition integrity :: "rain_table \<Rightarrow> real \<Rightarrow> nat \<Rightarrow> error + real list" where
  "integrity rain_df deg_coeff service_years =
     (case cumulative_rain_m_per_year rain_df service_years of
        Inl e \<Rightarrow> Inl e
      | Inr cum \<Rightarrow> Inr (map (\<lambda>c. 100 * exp (- deg_coeff * c)) cum))"

text \<open>\<^verbatim>\<open>years = np.arange(1, service_years + 1)\<close>\<close>

definition years :: "nat \<Rightarrow> nat list" where
  "years service_years = [1 ..< service_years + 1]"

subsection \<open>Tank size recommendation (lines 163--167)\<close>

definition REC_MIN_L :: real where
  "REC_MIN_L = 140000"

definition REC_MAX_L :: real where
  "REC_MAX_L = 280000"

text \<open>
  The script's \<^verbatim>\<open>state\<close> is one of three message strings, "Within recommended
  range", "Above recommended range" and "Below recommended range" (each with
  an emoji and bold markup); a constructor stands for each message.
\<close>

datatype tank_fit = Within | Above | Below

text \<open>
  The chained comparison \<^verbatim>\<open>REC_MIN_L <= annual_volume_l <= REC_MAX_L\<close> is the
  conjunction of its two halves.
\<close>

definition state :: "real \<Rightarrow> tank_fit" where
  "state annual_L =
     (if REC_MIN_L \<le> annual_L \<and> annual_L \<le> REC_MAX_L then Within
      else (if annual_L > REC_MAX_L then Above else Below))"

subsection \<open>The harvest as one step\<close>

text \<open>
  Lines 117--121 as one computation. The column arithmetic and the column sum
  of pandas are defined for a table of any number of rows; no statement of
  these lines raises, so the result is always \<open>Inr\<close>.
\<close>

definition harvest :: "rain_table \<Rightarrow> real \<Rightarrow> real \<Rightarrow> error + (real list \<times> real \<times> real)" where
  "harvest rain_df roof_area efficiency =
     Inr (Collected_L rain_df roof_area efficiency,
          annual_volume_l rain_df roof_area efficiency,
          annual_volume_m3 rain_df roof_area efficiency)"

subsection \<open>Edited tables\<close>


subsection \<open>The direct year-by-year accumulation\<close>

text \<open>
  The specification's replacement for the tile/cumsum/reshape idiom, written
  from its words: iterate over the years, keep a running cumulative total, add
  the year's monthly values in sequence, record the total at the year's end.
\<close>

fun add_months :: "real \<Rightarrow> real list \<Rightarrow> real" where
  "add_months running [] = running"
| "add_months running (m # ms) = add_months (running + m) ms"

fun direct_cum_rain :: "real \<Rightarrow> real list \<Rightarrow> nat \<Rightarrow> real list" where
  "direct_cum_rain running monthly 0 = []"
| "direct_cum_rain running monthly (Suc n) =
     add_months running monthly # direct_cum_rain (add_months running monthly) monthly n"

section \<open>Running sums, tiling and reshaping\<close>

lemma length_cumsum_from: "length (cumsum_from acc xs) = length xs"
  by (induction xs arbitrary: acc) simp_all

lemma cumsum_from_append:
  "cumsum_from acc (xs @ ys) = cumsum_from acc xs @ cumsum_from (acc + sum_list xs) ys"
  by (induction xs arbitrary: acc) (simp_all add: add.assoc)

lemma last_cumsum_from: "xs \<noteq> [] \<Longrightarrow> last (cumsum_from acc xs) = acc + sum_list xs"
proof (induction xs arbitrary: acc)
  case Nil
  then show ?case by simp
next
  case (Cons x xs)
  show ?case
  proof (cases xs)
    case Nil
    then show ?thesis by simp
  next
    case (Cons y ys)
    with Cons.IH [of "acc + x"] show ?thesis by (simp add: add.assoc)
  qed
qed

lemma cumsum_from_nth:
  "i < length xs \<Longrightarrow> cumsum_from acc xs ! i = acc + sum_list (take (Suc i) xs)"
proof (induction xs arbitrary: acc i)
  case Nil
  then show ?case by simp
next
  case (Cons x xs)
  show ?case
  proof (cases i)
    case 0
    then show ?thesis by simp
  next
    case (Suc j)
    with Cons.prems have "j < length xs" by simp
    from Cons.IH [OF this, of "acc + x"] Suc show ?thesis by (simp add: add.assoc)
  qed
qed

lemma tile_Suc: "tile a (Suc n) = a @ tile a n"
  by (simp add: tile_def)

lemma tile_0: "tile a 0 = []"
  by (simp add: tile_def)

lemma length_tile: "length (tile a n) = n * length a"
  by (induction n) (simp_all add: tile_0 tile_Suc)

lemma add_months_sum: "add_months running ms = running + sum_list ms"
  by (induction ms arbitrary: running) (simp_all add: add.assoc)

lemma length_rows_of: "length (rows_of r c a) = r"
  by (induction r arbitrary: a) simp_all

lemma last_column_cumsum_tile:
  assumes "a \<noteq> []"
  shows "last_column (rows_of r (length a) (cumsum_from acc (tile a r))) = direct_cum_rain acc a r"
proof (induction r arbitrary: acc)
  case 0
  show ?case by (simp add: last_column_def)
next
  case (Suc r)
  have "rows_of (Suc r) (length a) (cumsum_from acc (tile a (Suc r))) =
          cumsum_from acc a # rows_of r (length a) (cumsum_from (acc + sum_list a) (tile a r))"
    by (simp add: tile_Suc cumsum_from_append length_cumsum_from)
  then show ?case
    using Suc.IH [of "acc + sum_list a"] assms
    by (simp add: last_column_def last_cumsum_from add_months_sum)
qed

lemma last_column_nth:
  "0 < c \<Longrightarrow> length a = r * c \<Longrightarrow> i < r \<Longrightarrow> last_column (rows_of r c a) ! i = a ! (c * Suc i - 1)"
proof (induction r arbitrary: a i)
  case 0
  then show ?case by simp
next
  case (Suc r)
  have ca: "c \<le> length a" using Suc.prems by simp
  show ?case
  proof (cases i)
    case 0
    have "take c a \<noteq> []" using Suc.prems ca by auto
    then have "last (take c a) = take c a ! (c - 1)"
      using ca by (simp add: last_conv_nth)
    also have "\<dots> = a ! (c - 1)" using Suc.prems by simp
    finally show ?thesis using 0 by (simp add: last_column_def)
  next
    case (Suc j)
    have len: "length (drop c a) = r * c" using Suc.prems by simp
    have j: "j < r" using Suc Suc.prems by simp
    have "last_column (rows_of r c (drop c a)) ! j = drop c a ! (c * Suc j - 1)"
      using Suc.IH [OF Suc.prems(1) len j] .
    also have "\<dots> = a ! (c + (c * Suc j - 1))"
      using ca by simp
    also have "c + (c * Suc j - 1) = c * Suc (Suc j) - 1"
      using Suc.prems(1) by simp
    finally show ?thesis using Suc by (simp add: last_column_def)
  qed
qed

lemma direct_cum_rain_closed:
  "direct_cum_rain running ms n = map (\<lambda>y. running + real y * sum_list ms) [1 ..< Suc n]"
proof (induction n arbitrary: running)
  case 0
  show ?case by simp
next
  case (Suc n)
  have "[1 ..< Suc (Suc n)] = 1 # map Suc [1 ..< Suc n]"
    by (simp add: map_Suc_upt upt_conv_Cons del: upt_Suc)
  then have "map (\<lambda>y. running + real y * sum_list ms) [1 ..< Suc (Suc n)] =
          (running + sum_list ms) # map (\<lambda>y. (running + sum_list ms) + real y * sum_list ms) [1 ..< Suc n]"
    by (simp add: o_def algebra_simps del: upt_Suc)
  then show ?case
    using Suc.IH [of "running + sum_list ms"] by (simp add: add_months_sum del: upt_Suc)
qed

lemma cumulative_rain_m_per_year_direct:
  assumes "length rain_df = 12"
  shows "cumulative_rain_m_per_year rain_df n = Inr (direct_cum_rain 0 (Rainfall_m rain_df) n)"
proof -
  let ?a = "Rainfall_m rain_df"
  have la: "length ?a = 12" using assms by (simp add: Rainfall_m_def)
  then have ne: "?a \<noteq> []" by auto
  have "length (cumsum (tile ?a n)) = n * 12"
    by (simp add: cumsum_def length_cumsum_from length_tile la)
  then have "reshape (cumsum (tile ?a n)) n 12 = Inr (rows_of n 12 (cumsum (tile ?a n)))"
    by (simp add: reshape_def)
  moreover have "last_column (rows_of n 12 (cumsum (tile ?a n))) = direct_cum_rain 0 ?a n"
    using last_column_cumsum_tile [OF ne, of n 0] la by (simp add: cumsum_def)
  ultimately show ?thesis by (simp add: cumulative_rain_m_per_year_def)
qed

lemma cumulative_rain_m_per_year_shape:
  assumes "length rain_df \<noteq> 12" "0 < n"
  shows "cumulative_rain_m_per_year rain_df n = Inl ValueError"
proof -
  have "length (cumsum (tile (Rainfall_m rain_df) n)) = n * length rain_df"
    by (simp add: cumsum_def length_cumsum_from length_tile Rainfall_m_def)
  then have "length (cumsum (tile (Rainfall_m rain_df) n)) \<noteq> n * 12"
    using assms by simp
  then show ?thesis by (simp add: cumulative_rain_m_per_year_def reshape_def)
qed

section \<open>Harvest formulas\<close>

lemma Collected_L_length:
  "length (Collected_L rain_df roof_area efficiency) = length rain_df"
  by (simp add: Collected_L_def Rainfall_m_def)

lemma Collected_L_nth:
  assumes "i < length rain_df"
  shows "Collected_L rain_df roof_area efficiency ! i =
           roof_area * (Rainfall_mm (rain_df ! i) / 1000) * efficiency * 1000"
  using assms by (simp add: Collected_L_def Rainfall_m_def)

text \<open>
  Claim C1. For a 12-row table, the collected volume of month \<open>i\<close> is
  \<open>roof_area * (rainfall_mm[i] / 1000) * efficiency * 1000\<close>, which is
  \<open>roof_area * rainfall_mm[i] * efficiency\<close>; the annual volume is the sum of the
  twelve monthly volumes, and the cubic-metre figure is that sum divided by 1000.
\<close>

theorem harvest_formulas:
  assumes "length rain_df = 12"
  shows "length (Collected_L rain_df roof_area efficiency) = 12
       \<and> (\<forall>i<12. Collected_L rain_df roof_area efficiency ! i =
                    roof_area * (Rainfall_mm (rain_df ! i) / 1000) * efficiency * 1000
                \<and> Collected_L rain_df roof_area efficiency ! i =
                    roof_area * Rainfall_mm (rain_df ! i) * efficiency)
       \<and> annual_volume_l rain_df roof_area efficiency =
           (\<Sum>i<12. Collected_L rain_df roof_area efficiency ! i)
       \<and> annual_volume_m3 rain_df roof_area efficiency =
           (\<Sum>i<12. Collected_L rain_df roof_area efficiency ! i) / 1000"
proof -
  let ?C = "Collected_L rain_df roof_area efficiency"
  have len: "length ?C = 12"
    using assms by (simp add: Collected_L_length)
  have nth: "\<forall>i<12. ?C ! i = roof_area * (Rainfall_mm (rain_df ! i) / 1000) * efficiency * 1000
                  \<and> ?C ! i = roof_area * Rainfall_mm (rain_df ! i) * efficiency"
    using assms by (simp add: Collected_L_nth)
  have "sum_list ?C = (\<Sum>i<length ?C. ?C ! i)"
    by (simp add: sum_list_sum_nth atLeast0LessThan)
  then have tot: "annual_volume_l rain_df roof_area efficiency = (\<Sum>i<12. ?C ! i)"
    using len by (simp add: annual_volume_l_def)
  have m3: "annual_volume_m3 rain_df roof_area efficiency = (\<Sum>i<12. ?C ! i) / 1000"
    using tot by (simp add: annual_volume_m3_def)
  from len nth tot m3 show ?thesis by blast
qed

theorem harvest_formulas_witness:
  "length DEFAULT_RAIN = 12
   \<and> Collected_L DEFAULT_RAIN 250 (85 / 100) ! 0 = 250 * (8 / 1000) * (85 / 100) * 1000
   \<and> Collected_L DEFAULT_RAIN 250 (85 / 100) ! 0 = 1700
   \<and> annual_volume_m3 DEFAULT_RAIN 250 (85 / 100) =
       (\<Sum>i<12. Collected_L DEFAULT_RAIN 250 (85 / 100) ! i) / 1000"
proof -
  have h: "length DEFAULT_RAIN = 12"
    by (simp add: DEFAULT_RAIN_def)
  have r0: "Rainfall_mm (DEFAULT_RAIN ! 0) = 8"
    by (simp add: DEFAULT_RAIN_def)
  note T = harvest_formulas [OF h, of 250 "85 / 100"]
  show ?thesis
    using h r0 T [THEN conjunct2, THEN conjunct1, rule_format, of 0]
      T [THEN conjunct2, THEN conjunct2, THEN conjunct2]
    by simp
qed

section \<open>The default scenario\<close>

lemma DEFAULT_RAIN_total: "sum_list (map Rainfall_mm DEFAULT_RAIN) = 1144"
  by (simp add: DEFAULT_RAIN_def)

lemma annual_volume_l_closed:
  "annual_volume_l rain_df roof_area efficiency =
     roof_area * efficiency * sum_list (map Rainfall_mm rain_df)"
proof -
  have "annual_volume_l rain_df roof_area efficiency =
          sum_list (map (\<lambda>r. (roof_area * efficiency) * Rainfall_mm r) rain_df)"
    by (simp add: annual_volume_l_def Collected_L_def Rainfall_m_def o_def mult_ac)
  also have "\<dots> = (roof_area * efficiency) * sum_list (map Rainfall_mm rain_df)"
    by (simp add: sum_list_const_mult)
  finally show ?thesis .
qed

lemma annual_volume_l_default: "annual_volume_l DEFAULT_RAIN 250 (85 / 100) = 243100"
  by (simp add: annual_volume_l_closed DEFAULT_RAIN_total)

text \<open>
  Claim C3, as stated: with a roof of 250 square metres, efficiency 0.85 and the
  default profile, the annual volume is 243400 litres. It is not: the product
  \<open>250 * 0.85 * 1144\<close> is 243100, and that is what the script computes.
\<close>

theorem default_scenario_not_243400:
  "annual_volume_l DEFAULT_RAIN 250 (85 / 100) \<noteq> 243400"
  using annual_volume_l_default by simp

text \<open>
  Claim C3, amended. With a roof of 250 square metres, efficiency 0.85 and the
  default profile (January 8 mm to December 10 mm, 1144 mm a year), the annual
  volume is \<open>250 * 0.85 * 1144 = 243100\<close> litres, and that volume is classified
  Within.
\<close>

theorem default_scenario:
  "Rainfall_mm (DEFAULT_RAIN ! 0) = 8
   \<and> Rainfall_mm (DEFAULT_RAIN ! 11) = 10
   \<and> sum_list (map Rainfall_mm DEFAULT_RAIN) = 1144
   \<and> annual_volume_l DEFAULT_RAIN 250 (85 / 100) = 250 * (85 / 100) * 1144
   \<and> annual_volume_l DEFAULT_RAIN 250 (85 / 100) = 243100
   \<and> state (annual_volume_l DEFAULT_RAIN 250 (85 / 100)) = Within"
proof -
  have ends: "Rainfall_mm (DEFAULT_RAIN ! 0) = 8 \<and> Rainfall_mm (DEFAULT_RAIN ! 11) = 10"
    by (simp add: DEFAULT_RAIN_def)
  have fit: "state 243100 = Within"
    by (simp add: state_def REC_MIN_L_def REC_MAX_L_def)
  from ends fit annual_volume_l_default show ?thesis
    by (simp add: DEFAULT_RAIN_total)
qed

section \<open>Tank classification\<close>

text \<open>
  Claim C4. The classification is Within exactly on the closed band
  \<open>[140000, 280000]\<close>, Above exactly above 280000 and Below exactly below 140000;
  it has no error case, every volume gets one of the three answers; 140000 and
  280000 are Within, 139999.999 is Below and 280000.001 is Above.
\<close>

theorem state_classification:
  "(state annual_L = Within \<longleftrightarrow> 140000 \<le> annual_L \<and> annual_L \<le> 280000)
   \<and> (state annual_L = Above \<longleftrightarrow> annual_L > 280000)
   \<and> (state annual_L = Below \<longleftrightarrow> annual_L < 140000)
   \<and> state annual_L \<in> {Within, Above, Below}
   \<and> state 140000 = Within
   \<and> state 280000 = Within
   \<and> state (139999999 / 1000) = Below
   \<and> state (280000001 / 1000) = Above"
proof -
  have w: "state annual_L = Within \<longleftrightarrow> 140000 \<le> annual_L \<and> annual_L \<le> 280000"
    by (simp add: state_def REC_MIN_L_def REC_MAX_L_def)
  have a: "state annual_L = Above \<longleftrightarrow> annual_L > 280000"
    by (auto simp add: state_def REC_MIN_L_def REC_MAX_L_def)
  have b: "state annual_L = Below \<longleftrightarrow> annual_L < 140000"
    by (auto simp add: state_def REC_MIN_L_def REC_MAX_L_def)
  have t: "state annual_L \<in> {Within, Above, Below}"
    by (cases "state annual_L") simp_all
  have pts: "state 140000 = Within \<and> state 280000 = Within
             \<and> state (139999999 / 1000) = Below \<and> state (280000001 / 1000) = Above"
    by (simp add: state_def REC_MIN_L_def REC_MAX_L_def)
  from w a b t pts show ?thesis by blast
qed

section \<open>Linearity of the harvest\<close>

lemma Collected_L_scale_area:
  "Collected_L rain_df (c * roof_area) efficiency =
     map (\<lambda>v. c * v) (Collected_L rain_df roof_area efficiency)"
  by (simp add: Collected_L_def mult_ac)

lemma Collected_L_scale_efficiency:
  "Collected_L rain_df roof_area (c * efficiency) =
     map (\<lambda>v. c * v) (Collected_L rain_df roof_area efficiency)"
  by (simp add: Collected_L_def mult_ac)

lemma annual_volume_l_scale_area:
  "annual_volume_l rain_df (c * roof_area) efficiency =
     c * annual_volume_l rain_df roof_area efficiency"
  by (simp add: annual_volume_l_closed)

lemma annual_volume_l_scale_efficiency:
  "annual_volume_l rain_df roof_area (c * efficiency) =
     c * annual_volume_l rain_df roof_area efficiency"
  by (simp add: annual_volume_l_closed)

text \<open>
  Claim C7. The harvest is linear in the roof area and in the efficiency:
  doubling either one, the other inputs fixed, doubles every monthly collected
  volume and the annual total. The same holds for any factor \<open>c\<close> in place of 2.
\<close>

theorem harvest_linear:
  "Collected_L rain_df (2 * roof_area) efficiency =
     map (\<lambda>v. 2 * v) (Collected_L rain_df roof_area efficiency)
   \<and> annual_volume_l rain_df (2 * roof_area) efficiency =
       2 * annual_volume_l rain_df roof_area efficiency
   \<and> Collected_L rain_df roof_area (2 * efficiency) =
       map (\<lambda>v. 2 * v) (Collected_L rain_df roof_area efficiency)
   \<and> annual_volume_l rain_df roof_area (2 * efficiency) =
       2 * annual_volume_l rain_df roof_area efficiency
   \<and> Collected_L rain_df (c * roof_area) efficiency =
       map (\<lambda>v. c * v) (Collected_L rain_df roof_area efficiency)
   \<and> annual_volume_l rain_df (c * roof_area) efficiency =
       c * annual_volume_l rain_df roof_area efficiency
   \<and> Collected_L rain_df roof_area (c * efficiency) =
       map (\<lambda>v. c * v) (Collected_L rain_df roof_area efficiency)
   \<and> annual_volume_l rain_df roof_area (c * efficiency) =
       c * annual_volume_l rain_df roof_area efficiency"
  using Collected_L_scale_area [of rain_df 2 roof_area efficiency]
        Collected_L_scale_efficiency [of rain_df roof_area 2 efficiency]
        annual_volume_l_scale_area [of rain_df 2 roof_area efficiency]
        annual_volume_l_scale_efficiency [of rain_df roof_area 2 efficiency]
        Collected_L_scale_area [of rain_df c roof_area efficiency]
        Collected_L_scale_efficiency [of rain_df roof_area c efficiency]
        annual_volume_l_scale_area [of rain_df c roof_area efficiency]
        annual_volume_l_scale_efficiency [of rain_df roof_area c efficiency]
  by blast

section \<open>The integrity projection in closed form\<close>

lemma length_years: "length (years n) = n"
  by (simp add: years_def)

lemma years_nth: "i < n \<Longrightarrow> years n ! i = Suc i"
  unfolding years_def by (simp add: nth_upt del: upt_Suc)


lemma integrity_shape:
  assumes "length rain_df \<noteq> 12" "0 < n"
  shows "integrity rain_df k n = Inl ValueError"
  by (simp add: integrity_def cumulative_rain_m_per_year_shape [OF assms])


lemma Rainfall_m_sum: "sum_list (Rainfall_m rain_df) = sum_list (map Rainfall_mm rain_df) / 1000"
proof -
  have "sum_list (Rainfall_m rain_df) = sum_list (map (\<lambda>r. (1 / 1000) * Rainfall_mm r) rain_df)"
    by (simp add: Rainfall_m_def)
  also have "\<dots> = (1 / 1000) * sum_list (map Rainfall_mm rain_df)"
    by (simp only: sum_list_const_mult)
  finally show ?thesis by simp
qed

lemma years_1: "years (Suc 0) = [Suc 0]"
  by (simp add: years_def)

lemma years_2: "years 2 = [1, 2]"
  by (simp add: years_def upt_conv_Cons)



section \<open>The integrity projection, year by year\<close>

text \<open>
  Claim C2. For a 12-row table and a positive number of service years, the
  projection for year \<open>y\<close> in \<open>1..service_years\<close> is
  \<open>100 * exp (- k * cum_rain_m[y])\<close>, where \<open>cum_rain_m[y]\<close> is the entry at index
  \<open>12 * y - 1\<close> of the running sum of the monthly rainfall in metres tiled
  \<open>service_years\<close> times, that is, the sum of the first \<open>12 * y\<close> tiled values.
\<close>


theorem integrity_per_year:
  assumes "length rain_df = 12" and "0 < service_years"
  shows "integrity rain_df k service_years =
           Inr (map (\<lambda>y. 100 * exp (- k *
                  (cumsum (tile (Rainfall_m rain_df) service_years) ! (12 * y - 1))))
                (years service_years))
       \<and> (\<forall>y \<in> set (years service_years).
             1 \<le> y \<and> y \<le> service_years
           \<and> cumsum (tile (Rainfall_m rain_df) service_years) ! (12 * y - 1) =
               sum_list (take (12 * y) (tile (Rainfall_m rain_df) service_years)))"
proof -
  let ?a = "Rainfall_m rain_df"
  let ?T = "tile ?a service_years"
  let ?Z = "cumsum ?T"
  let ?n = service_years
  have la: "length ?a = 12" using assms(1) by (simp add: Rainfall_m_def)
  have lT: "length ?T = ?n * 12" by (simp add: length_tile la)
  have lZ: "length ?Z = ?n * 12" by (simp add: cumsum_def length_cumsum_from lT)
  have resh: "reshape ?Z ?n 12 = Inr (rows_of ?n 12 ?Z)"
    using lZ by (simp add: reshape_def)
  let ?cum = "last_column (rows_of ?n 12 ?Z)"
  have cum: "cumulative_rain_m_per_year rain_df ?n = Inr ?cum"
    by (simp add: cumulative_rain_m_per_year_def resh)
  have lcum: "length ?cum = ?n"
    by (simp add: last_column_def length_rows_of)
  have nth: "?cum ! i = ?Z ! (12 * Suc i - 1)" if "i < ?n" for i
    using last_column_nth [of 12 ?Z ?n i] lZ that by simp
  have "map (\<lambda>c. 100 * exp (- k * c)) ?cum =
          map (\<lambda>y. 100 * exp (- k * (?Z ! (12 * y - 1)))) (years ?n)"
  proof (rule nth_equalityI)
    show "length (map (\<lambda>c. 100 * exp (- k * c)) ?cum) =
            length (map (\<lambda>y. 100 * exp (- k * (?Z ! (12 * y - 1)))) (years ?n))"
      by (simp add: lcum length_years)
  next
    fix i assume "i < length (map (\<lambda>c. 100 * exp (- k * c)) ?cum)"
    then have i: "i < ?n" by (simp add: lcum)
    then show "map (\<lambda>c. 100 * exp (- k * c)) ?cum ! i =
                 map (\<lambda>y. 100 * exp (- k * (?Z ! (12 * y - 1)))) (years ?n) ! i"
      by (simp add: lcum length_years years_nth nth)
  qed
  then have first: "integrity rain_df k ?n =
      Inr (map (\<lambda>y. 100 * exp (- k * (?Z ! (12 * y - 1)))) (years ?n))"
    by (simp add: integrity_def cum)
  have second: "\<forall>y \<in> set (years ?n). 1 \<le> y \<and> y \<le> ?n
                  \<and> ?Z ! (12 * y - 1) = sum_list (take (12 * y) ?T)"
  proof
    fix y assume "y \<in> set (years ?n)"
    then have y: "1 \<le> y" "y \<le> ?n" by (auto simp add: years_def)
    then have "12 * y - 1 < length ?T" using lT by simp
    from cumsum_from_nth [OF this, of 0] y
    show "1 \<le> y \<and> y \<le> ?n \<and> ?Z ! (12 * y - 1) = sum_list (take (12 * y) ?T)"
      by (simp add: cumsum_def)
  qed
  from first second show ?thesis by blast
qed

theorem integrity_per_year_witness:
  "length DEFAULT_RAIN = 12 \<and> (0::nat) < 1
   \<and> integrity DEFAULT_RAIN (4 / 100) 1 =
       Inr [100 * exp (- (4 / 100) * (cumsum (tile (Rainfall_m DEFAULT_RAIN) 1) ! 11))]
   \<and> cumsum (tile (Rainfall_m DEFAULT_RAIN) 1) ! 11 = 1144 / 1000"
proof -
  have h: "length DEFAULT_RAIN = 12" by (simp add: DEFAULT_RAIN_def)
  have p: "(0::nat) < 1" by simp
  note T = integrity_per_year [OF h p, of "4 / 100"]
  have t1: "tile (Rainfall_m DEFAULT_RAIN) (Suc 0) = Rainfall_m DEFAULT_RAIN"
    by (simp add: tile_def)
  have l: "length (Rainfall_m DEFAULT_RAIN) = 12"
    by (simp add: Rainfall_m_def h)
  have "1 \<in> set (years 1)" by (simp add: years_def)
  from T [THEN conjunct2, rule_format, OF this]
  have c: "cumsum (tile (Rainfall_m DEFAULT_RAIN) 1) ! 11 = 1144 / 1000"
    by (simp add: t1 l Rainfall_m_sum DEFAULT_RAIN_total)
  from T [THEN conjunct1] h c show ?thesis
    by (simp add: years_1)
qed

section \<open>The array idiom against the direct accumulation\<close>

text \<open>
  Claim C10. For a 12-row table, tiling, taking the running sum, reshaping to
  rows of twelve and keeping the last column gives the same sequence as the
  direct iteration that adds each year's twelve monthly values to a running
  total and records it at the year's end; the entry for year \<open>y\<close> is \<open>y\<close> times
  the annual rainfall in metres.
\<close>


theorem cumulative_rain_direct:
  assumes "length rain_df = 12"
  shows "cumulative_rain_m_per_year rain_df service_years =
           Inr (direct_cum_rain 0 (Rainfall_m rain_df) service_years)
       \<and> direct_cum_rain 0 (Rainfall_m rain_df) service_years =
           map (\<lambda>y. real y * sum_list (Rainfall_m rain_df)) (years service_years)"
  using cumulative_rain_m_per_year_direct [OF assms, of service_years]
    direct_cum_rain_closed [of 0 "Rainfall_m rain_df" service_years]
  by (simp add: years_def del: upt_Suc)

theorem cumulative_rain_direct_witness:
  "length DEFAULT_RAIN = 12
   \<and> cumulative_rain_m_per_year DEFAULT_RAIN 2 = Inr [1144 / 1000, 2288 / 1000]
   \<and> direct_cum_rain 0 (Rainfall_m DEFAULT_RAIN) 2 = [1144 / 1000, 2288 / 1000]"
proof -
  have h: "length DEFAULT_RAIN = 12" by (simp add: DEFAULT_RAIN_def)
  from cumulative_rain_direct [OF h, of 2] h show ?thesis
    by (simp add: years_2 Rainfall_m_sum DEFAULT_RAIN_total)
qed

section \<open>Monotonicity and bounds of the integrity projection\<close>












section \<open>Tables that do not have twelve rows\<close>

text \<open>
  Claim C8, as stated: a table of 11 or 13 rows makes both the harvest and the
  projection fail. The harvest lines do not look at the row count: for the
  default table without its December row they return eleven monthly volumes
  and their sum, 240975 litres.
\<close>

theorem harvest_accepts_11_rows:
  "length (butlast DEFAULT_RAIN) = 11
   \<and> harvest (butlast DEFAULT_RAIN) 250 (85 / 100) =
       Inr ([1700, 9775 / 2, 9775, 37825 / 2, 58225 / 2, 82025 / 2, 65875 / 2, 53975 / 2,
             77775 / 2, 29750, 14025 / 2], 240975, 240975 / 1000)"
  by (simp add: harvest_def annual_volume_m3_def annual_volume_l_def Collected_L_def
        Rainfall_m_def DEFAULT_RAIN_def)

text \<open>
  Claim C8, amended. For every table whose row count is not 12 and every
  positive number of service years, the integrity projection fails with the
  \<^verbatim>\<open>ValueError\<close> of \<^verbatim>\<open>reshape\<close> (the shape mismatch) instead of a result; the
  harvest does not check the row count and returns one collected volume per
  row, their sum and the sum divided by 1000.
\<close>

theorem shape_mismatch:
  assumes "length rain_df \<noteq> 12" and "0 < service_years"
  shows "integrity rain_df k service_years = Inl ValueError
       \<and> cumulative_rain_m_per_year rain_df service_years = Inl ValueError
       \<and> harvest rain_df roof_area efficiency =
           Inr (Collected_L rain_df roof_area efficiency,
                annual_volume_l rain_df roof_area efficiency,
                annual_volume_m3 rain_df roof_area efficiency)
       \<and> length (Collected_L rain_df roof_area efficiency) = length rain_df"
  using integrity_shape [OF assms] cumulative_rain_m_per_year_shape [OF assms]
  by (simp add: harvest_def Collected_L_length)

theorem shape_mismatch_witness:
  "length (butlast DEFAULT_RAIN) \<noteq> 12 \<and> (0::nat) < 25
   \<and> integrity (butlast DEFAULT_RAIN) (4 / 100) 25 = Inl ValueError
   \<and> length (Collected_L (butlast DEFAULT_RAIN) 250 (85 / 100)) = 11"
proof -
  have h1: "length (butlast DEFAULT_RAIN) \<noteq> 12" by (simp add: DEFAULT_RAIN_def)
  have h2: "(0::nat) < 25" by simp
  have l: "length (butlast DEFAULT_RAIN) = 11" by (simp add: DEFAULT_RAIN_def)
  from shape_mismatch [OF h1 h2, of "4 / 100" 250 "85 / 100"] h1 l show ?thesis
    by simp
qed

section \<open>Rainy days\<close>

lemma Rainfall_m_cong:
  "map Rainfall_mm t1 = map Rainfall_mm t2 \<Longrightarrow> Rainfall_m t1 = Rainfall_m t2"
proof -
  assume "map Rainfall_mm t1 = map Rainfall_mm t2"
  then have "map (\<lambda>v. v / 1000) (map Rainfall_mm t1) = map (\<lambda>v. v / 1000) (map Rainfall_mm t2)"
    by simp
  then show ?thesis by (simp add: Rainfall_m_def o_def)
qed

text \<open>
  Claim C9. Two tables with the same \<^verbatim>\<open>Rainfall_mm\<close> column, whatever their
  \<^verbatim>\<open>Rainy_Days\<close> values, give the same harvest, the same annual totals, the
  same tank classification and the same integrity projection, for the same
  roof area, efficiency, coefficient and number of years.
\<close>

theorem rainy_days_unused:
  assumes "map Rainfall_mm t1 = map Rainfall_mm t2"
  shows "harvest t1 roof_area efficiency = harvest t2 roof_area efficiency
       \<and> Collected_L t1 roof_area efficiency = Collected_L t2 roof_area efficiency
       \<and> annual_volume_l t1 roof_area efficiency = annual_volume_l t2 roof_area efficiency
       \<and> annual_volume_m3 t1 roof_area efficiency = annual_volume_m3 t2 roof_area efficiency
       \<and> state (annual_volume_l t1 roof_area efficiency) =
           state (annual_volume_l t2 roof_area efficiency)
       \<and> cumulative_rain_m_per_year t1 service_years =
           cumulative_rain_m_per_year t2 service_years
       \<and> integrity t1 k service_years = integrity t2 k service_years"
  using Rainfall_m_cong [OF assms]
  by (simp add: harvest_def annual_volume_m3_def annual_volume_l_def Collected_L_def
        integrity_def cumulative_rain_m_per_year_def)

theorem rainy_days_unused_witness:
  "map Rainfall_mm DEFAULT_RAIN = map Rainfall_mm (map (\<lambda>r. r\<lparr>Rainy_Days := 0\<rparr>) DEFAULT_RAIN)
   \<and> DEFAULT_RAIN \<noteq> map (\<lambda>r. r\<lparr>Rainy_Days := 0\<rparr>) DEFAULT_RAIN
   \<and> harvest DEFAULT_RAIN 250 (85 / 100) =
       harvest (map (\<lambda>r. r\<lparr>Rainy_Days := 0\<rparr>) DEFAULT_RAIN) 250 (85 / 100)
   \<and> state (annual_volume_l DEFAULT_RAIN 250 (85 / 100)) =
       state (annual_volume_l (map (\<lambda>r. r\<lparr>Rainy_Days := 0\<rparr>) DEFAULT_RAIN) 250 (85 / 100))
   \<and> integrity DEFAULT_RAIN (4 / 100) 25 =
       integrity (map (\<lambda>r. r\<lparr>Rainy_Days := 0\<rparr>) DEFAULT_RAIN) (4 / 100) 25"
proof -
  let ?t = "map (\<lambda>r. r\<lparr>Rainy_Days := 0\<rparr>) DEFAULT_RAIN"
  have h: "map Rainfall_mm DEFAULT_RAIN = map Rainfall_mm ?t"
    by (simp add: o_def)
  have d: "DEFAULT_RAIN \<noteq> ?t"
    by (simp add: DEFAULT_RAIN_def)
  from rainy_days_unused [OF h, of 250 "85 / 100" 25 "4 / 100"] h d show ?thesis
    by blast
qed

end
